theory Spec2Isabelle
  imports Main "HOL-Library.Word"
begin

unbundle bit_operations_syntax

text \<open>
  A shallow embedding of \<open>FF_Sim7000\<close>, the asynchronous SMS driver for SIM7000
  modems: the command sequencer, the init sequencer, the line framer and classifier of
  \<open>doLoop\<close>, and the SMS transmission and reception pipelines, with the properties
  C1 to C10 of its specification.
\<close>

section \<open>Bytes, C strings and the library routines the driver calls\<close>

text \<open>
  A \<open>char\<close> or \<open>uint8_t\<close> of the source is an 8-bit word. A C string (a
  \<open>char\<close> buffer or a \<open>const char*\<close>) is modelled by the list of its bytes before the
  terminating NUL; an Arduino \<open>String\<close> by the list of its bytes.
\<close>

type_synonym byte = "8 word"
type_synonym cstring = "byte list"

definition cstr :: "string \<Rightarrow> cstring" where
  "cstr s = map of_char s"

text \<open>\<open>text[k]\<close> for a C string: the terminating NUL at its end (the buffers of the
  driver are zero-filled by \<open>memset\<close> and written left to right, so every byte behind
  the contents reads as NUL as well).\<close>

definition byteAt :: "cstring \<Rightarrow> nat \<Rightarrow> byte" where
  "byteAt s k = (if k < length s then s ! k else 0)"

text \<open>\<open>strncpy(dst, src, n)\<close> read back as a C string: the first \<open>n\<close> bytes of
  \<open>src\<close> at most.\<close>

definition strncpy :: "cstring \<Rightarrow> nat \<Rightarrow> cstring" where
  "strncpy src n = take n src"

primrec startsWith :: "cstring \<Rightarrow> cstring \<Rightarrow> bool" where
  "startsWith s [] = True"
| "startsWith s (p # ps) = (case s of [] \<Rightarrow> False | c # cs \<Rightarrow> c = p \<and> startsWith cs ps)"

text \<open>\<open>strstr(hay, needle)\<close>: the offset of the first occurrence, \<open>None\<close> for the
  NULL result.\<close>

fun strstr :: "cstring \<Rightarrow> cstring \<Rightarrow> nat option" where
  "strstr [] needle = (if needle = [] then Some 0 else None)"
| "strstr (c # cs) needle =
     (if startsWith (c # cs) needle then Some 0 else map_option Suc (strstr cs needle))"

text \<open>Arduino's \<open>String::substring(left, right)\<close>: the bounds are swapped when out of
  order, the result is empty when \<open>left\<close> is at or behind the end, and \<open>right\<close> is
  clamped to the length.\<close>

definition substring :: "cstring \<Rightarrow> nat \<Rightarrow> nat \<Rightarrow> cstring" where
  "substring s left right =
     (let l = (if left > right then right else left);
          r = (if left > right then left else right)
      in if l \<ge> length s then [] else take (min r (length s) - l) (drop l s))"

text \<open>The \<open>%d\<close> conversion of \<open>snprintf\<close>.\<close>

function decimal :: "nat \<Rightarrow> cstring" where
  "decimal n = (if n < 10 then [of_nat (48 + n)] else decimal (n div 10) @ [of_nat (48 + n mod 10)])"
  by pat_completeness auto
termination
  by (relation "measure id") auto

declare decimal.simps [simp del]

definition printInt :: "int \<Rightarrow> cstring" where
  "printInt i = (if i < 0 then 45 # decimal (nat (- i)) else decimal (nat i))"

section \<open>Status, mode and continuation values\<close>

text \<open>The \<open>#define\<close>d status codes (kept in \<open>gsmStatus\<close> and \<open>restartReason\<close>; the
  source gives \<open>SIM7000_RUNNING\<close> and \<open>SIM7000_TIMEOUT\<close> the same value) and the
  modes kept in \<open>gsmIdle\<close>.\<close>

abbreviation SIM7000_OK :: int where "SIM7000_OK \<equiv> 0"
abbreviation SIM7000_RUNNING :: int where "SIM7000_RUNNING \<equiv> 1"
abbreviation SIM7000_TIMEOUT :: int where "SIM7000_TIMEOUT \<equiv> 1"
abbreviation SIM7000_TOO_LONG :: int where "SIM7000_TOO_LONG \<equiv> 2"
abbreviation SIM7000_BAD_ANSWER :: int where "SIM7000_BAD_ANSWER \<equiv> 3"
abbreviation SIM7000_CM_ERROR :: int where "SIM7000_CM_ERROR \<equiv> 4"
abbreviation SIM7000_NEED_INIT :: int where "SIM7000_NEED_INIT \<equiv> 5"

abbreviation SIM7000_IDLE :: int where "SIM7000_IDLE \<equiv> 0"
abbreviation SIM7000_SEND :: int where "SIM7000_SEND \<equiv> 1"
abbreviation SIM7000_RECV :: int where "SIM7000_RECV \<equiv> 2"
abbreviation SIM7000_STARTING :: int where "SIM7000_STARTING \<equiv> 3"
abbreviation SIM7000_NOT_CONNECTED :: int where "SIM7000_NOT_CONNECTED \<equiv> 4"

abbreviation SIM7000_CMD_TIMEOUT :: "32 word" where "SIM7000_CMD_TIMEOUT \<equiv> 4000"
abbreviation MAX_ANSWER :: nat where "MAX_ANSWER \<equiv> 500"

definition DEFAULT_ANSWER :: cstring where "DEFAULT_ANSWER = cstr ''OK''"
definition CREG_MSG :: cstring where "CREG_MSG = cstr ''+CREG: ''"
definition CREG_QUERY :: cstring where "CREG_QUERY = cstr ''+CREG?''"
definition SMS_INDICATOR :: cstring where "SMS_INDICATOR = cstr ''+CMT: ''"
definition CSCA_INDICATOR :: cstring where "CSCA_INDICATOR = cstr ''+CSCA:''"

text \<open>The member functions the source stores in a pointer to member: the
  continuation \<open>nextStepCb\<close> and the routine of an init step.\<close>

datatype step = SetIdle | SendNextInitStep | SendSMStext | SendNextSmsChunk | GotSca

text \<open>Calls of the callbacks the user registered and writes to the power pin, in the
  order they are made.\<close>

datatype callback =
    ReadSms cstring cstring cstring
  | RecvLine cstring

datatype pinmode = OUTPUT | OUTPUT_OPEN_DRAIN

datatype pin = PinMode int pinmode | DigitalWrite int int

section \<open>The session\<close>

text \<open>
  The members of \<open>FF_Sim7000\<close> and the three file-level globals of the init
  sequencer, with the serial link (bytes waiting to be read, bytes written), the state
  \<open>'p\<close> of the external PDU codec object \<open>smsPdu\<close>, and the calls made to user
  callbacks and to the power pin.
\<close>

record 'p session =
  ignoreErrors :: bool
  smsReady :: bool
  lastReceivedNumber :: cstring
  lastReceivedDate :: cstring
  lastReceivedMessage :: cstring
  lastSentNumber :: cstring
  lastSentDate :: cstring
  lastSentMessage :: cstring
  startTime :: "32 word"
  commandCount :: "32 word"
  restartCount :: "32 word"
  smsForwardedCount :: "32 word"
  smsSentCount :: "32 word"
  modemPowerPin :: int
  powerStep :: int
  nextStepCb :: "step option"
  readSmsCb :: bool
  recvLineCb :: bool
  index :: int
  restartReason :: int
  gsmTimeout :: "32 word"
  powerStepStartTime :: "32 word"
  powerStepDuration :: "32 word list"
  gsmStatus :: int
  gsmIdle :: int
  inReceive :: bool
  inWait :: bool
  inWaitSmsReady :: bool
  restartNeeded :: bool
  nextLineIsSmsMessage :: bool
  firstInitDone :: bool
  modemSpeaking :: bool
  lastAnswer :: cstring
  expectedAnswer :: cstring
  lastCommand :: cstring
  gsm7Length :: "16 word"
  smsMsgId :: "16 word"
  smsMsgIndex :: "8 word"
  smsMsgCount :: "8 word"
  smsChunkSize :: "8 word"
  stepPtr :: "8 word"
  stepRepeatCount :: "8 word"
  stepMaxRepeatcount :: "8 word"
  smsPdu :: 'p
  serialIn :: "byte list"
  serialOut :: "byte list"
  callbacks :: "callback list"
  pins :: "pin list"

text \<open>The external PDU codec (pdulib), taken as a parameter: each operation reads and
  may change the codec object.\<close>

record 'p codec =
  encodePDU :: "'p \<Rightarrow> cstring \<Rightarrow> cstring \<Rightarrow> 16 word \<Rightarrow> 8 word \<Rightarrow> 8 word \<Rightarrow> int \<times> 'p"
  getSMS :: "'p \<Rightarrow> cstring"
  decodePDU :: "'p \<Rightarrow> cstring \<Rightarrow> bool \<times> 'p"
  getSender :: "'p \<Rightarrow> cstring"
  getTimeStamp :: "'p \<Rightarrow> cstring"
  getText :: "'p \<Rightarrow> cstring"
  setSCAnumber :: "'p \<Rightarrow> cstring \<Rightarrow> 'p"

text \<open>The constructor. Members it leaves unset, and the globals, start at zero (an
  object with static storage duration).\<close>

definition FF_Sim7000 :: "'p \<Rightarrow> 'p session" where
  "FF_Sim7000 p = \<lparr>
     ignoreErrors = False, smsReady = False,
     lastReceivedNumber = [], lastReceivedDate = [], lastReceivedMessage = [],
     lastSentNumber = [], lastSentDate = [], lastSentMessage = [],
     startTime = 0, commandCount = 0, restartCount = 0, smsForwardedCount = 0,
     smsSentCount = 0, modemPowerPin = 0, powerStep = 0, nextStepCb = None,
     readSmsCb = False, recvLineCb = False, index = 0,
     restartReason = SIM7000_NEED_INIT, gsmTimeout = 0, powerStepStartTime = 0,
     powerStepDuration = [1500, 2000, 1500, 10000, 0],
     gsmStatus = SIM7000_NEED_INIT, gsmIdle = SIM7000_STARTING,
     inReceive = False, inWait = False, inWaitSmsReady = False, restartNeeded = False,
     nextLineIsSmsMessage = False, firstInitDone = False, modemSpeaking = False,
     lastAnswer = [], expectedAnswer = [], lastCommand = [],
     gsm7Length = 0, smsMsgId = 0, smsMsgIndex = 0, smsMsgCount = 0, smsChunkSize = 0,
     stepPtr = 0, stepRepeatCount = 0, stepMaxRepeatcount = 0,
     smsPdu = p, serialIn = [], serialOut = [], callbacks = [], pins = [] \<rparr>"

section \<open>Command sequencer\<close>

definition resetLastAnswer :: "'p session \<Rightarrow> 'p session" where
  "resetLastAnswer s = s\<lparr>lastAnswer := []\<rparr>"

definition setIdle :: "'p session \<Rightarrow> 'p session" where
  "setIdle s = resetLastAnswer (s\<lparr>gsmIdle := SIM7000_IDLE, inReceive := False\<rparr>)"

text \<open>\<open>sendCommand(const char*, ...)\<close>; \<open>now\<close> is the value of \<open>millis()\<close>.\<close>

definition sendCommand ::
  "32 word \<Rightarrow> cstring \<Rightarrow> step option \<Rightarrow> cstring \<Rightarrow> 32 word \<Rightarrow> 8 word \<Rightarrow> 'p session \<Rightarrow> 'p session" where
  "sendCommand now command nextStep resp cdeTimeout repeat s =
     (let s1 = s\<lparr>commandCount := commandCount s + 1, gsmTimeout := cdeTimeout,
                 gsmStatus := SIM7000_RUNNING, nextStepCb := nextStep,
                 stepMaxRepeatcount := repeat, expectedAnswer := strncpy resp 10\<rparr>;
          s2 = (if command \<noteq> [] then
                  (let s3 = (if lastCommand s1 \<noteq> command then s1\<lparr>stepRepeatCount := 0\<rparr> else s1);
                       s4 = resetLastAnswer (s3\<lparr>lastCommand := strncpy command 30\<rparr>)
                   in s4\<lparr>serialOut := serialOut s4 @ command @ [13]\<rparr>)
                else s1)
      in s2\<lparr>startTime := now, inReceive := True, inWait := False, inWaitSmsReady := False,
             nextLineIsSmsMessage := False\<rparr>)"

text \<open>\<open>sendCommand(const uint8_t, ...)\<close>.\<close>

definition sendCommandByte ::
  "32 word \<Rightarrow> byte \<Rightarrow> step option \<Rightarrow> cstring \<Rightarrow> 32 word \<Rightarrow> 'p session \<Rightarrow> 'p session" where
  "sendCommandByte now command nextStep resp cdeTimeout s =
     (let s1 = resetLastAnswer (s\<lparr>commandCount := commandCount s + 1, gsmTimeout := cdeTimeout,
                 gsmStatus := SIM7000_RUNNING, nextStepCb := nextStep,
                 expectedAnswer := strncpy resp 10\<rparr>)
      in s1\<lparr>serialOut := serialOut s1 @ [command], startTime := now, inReceive := True,
             inWaitSmsReady := False\<rparr>)"

section \<open>SMS transmission\<close>

definition getGsm7EquivalentLen :: "byte \<Rightarrow> byte \<Rightarrow> byte \<Rightarrow> byte" where
  "getGsm7EquivalentLen c1 c2 c3 =
     (if c1 = 0x0a \<or> c1 = 0x0d \<or> (c1 \<ge> 0x20 \<and> c1 \<le> 0x5a) \<or> c1 = 0x5f
         \<or> (c1 \<ge> 0x61 \<and> c1 \<le> 0x7a) then 1
      else if c1 = 0xc2 \<and> (c2 = 0xa1 \<or> (c2 \<ge> 0xa3 \<and> c2 \<le> 0xa5) \<or> c2 = 0xa7 \<or> c2 = 0xbf) then 1
      else if c1 = 0xc3 \<and> ((c2 \<ge> 0x84 \<and> c2 \<le> 0x87) \<or> c2 = 0x89 \<or> c2 = 0x91 \<or> c2 = 0x96
         \<or> c2 = 0x98 \<or> c2 = 0x9c \<or> (c2 \<ge> 0x9f \<and> c2 \<le> 0xa0) \<or> (c2 \<ge> 0xa4 \<and> c2 \<le> 0xa6)
         \<or> (c2 \<ge> 0xa8 \<and> c2 \<le> 0xa9) \<or> c2 = 0xac \<or> (c2 \<ge> 0xb1 \<and> c2 \<le> 0xb2) \<or> c2 = 0xb6
         \<or> (c2 \<ge> 0xb8 \<and> c2 \<le> 0xb9) \<or> c2 = 0xbc) then 1
      else if c1 = 0x0c \<or> (c1 \<ge> 0x5b \<and> c1 \<le> 0x5e) \<or> (c1 \<ge> 0x7b \<and> c1 \<le> 0x7e) then 2
      else if c1 = 0xe2 \<and> c2 = 0x82 \<and> c3 = 0xac then 2
      else 0)"

text \<open>The loop of \<open>ucs2MessageLength\<close> with its 16-bit counter, and the function.\<close>

fun utf8CharCount :: "cstring \<Rightarrow> 16 word \<Rightarrow> 16 word" where
  "utf8CharCount [] n = n"
| "utf8CharCount (c # cs) n = utf8CharCount cs (n + (if c AND 0xc0 \<noteq> 0x80 then 1 else 0))"

definition ucs2MessageLength :: "cstring \<Rightarrow> 16 word" where
  "ucs2MessageLength text = utf8CharCount text 0 * 2"

text \<open>The scanning loop of \<open>sendSMS\<close>: \<open>i\<close> runs up to the 16-bit \<open>utf8Length\<close>,
  the result is the value of \<open>gsm7Length\<close> behind the loop.\<close>

function gsm7Scan :: "cstring \<Rightarrow> nat \<Rightarrow> nat \<Rightarrow> 16 word \<Rightarrow> 16 word" where
  "gsm7Scan text utf8Length i len =
     (if i < utf8Length then
        (let c1 = text ! i;
             c2 = (if i + 1 < utf8Length then text ! (i + 1) else 0);
             c3 = (if i + 2 < utf8Length then text ! (i + 2) else 0);
             lengthToAdd = getGsm7EquivalentLen c1 c2 c3
         in if lengthToAdd \<noteq> 0 then gsm7Scan text utf8Length (i + 1) (len + ucast lengthToAdd)
            else 0)
      else len)"
  by pat_completeness auto
termination
  by (relation "measure (\<lambda>(text, utf8Length, i, len). utf8Length - i)") auto

declare gsm7Scan.simps [simp del]

text \<open>The two branches of the chunk plan of \<open>sendSMS\<close>. The sums are computed in
  \<open>int\<close> and the quotient is stored in the 8-bit \<open>smsMsgCount\<close>.\<close>

definition planGsm7 :: "'p session \<Rightarrow> 'p session" where
  "planGsm7 s =
     (if unat (gsm7Length s) > 160 then
        s\<lparr>smsMsgCount := of_nat ((unat (gsm7Length s) + 151) div 152),
          smsMsgId := smsMsgId s + 1, smsChunkSize := 152\<rparr>
      else s\<lparr>smsMsgCount := 0\<rparr>)"

definition planUcs2 :: "16 word \<Rightarrow> 'p session \<Rightarrow> 'p session" where
  "planUcs2 ucs2Length s =
     (if unat ucs2Length > 70 then
        s\<lparr>smsMsgCount := of_nat ((unat ucs2Length + 66) div 67),
          smsMsgId := smsMsgId s + 1, smsChunkSize := 67\<rparr>
      else s\<lparr>smsMsgCount := 0\<rparr>)"

text \<open>\<open>sendSMS\<close> up to the chunk plan.\<close>

definition sendSMS_plan :: "cstring \<Rightarrow> 'p session \<Rightarrow> 'p session" where
  "sendSMS_plan text s =
     (let utf8Length = (of_nat (length text) :: 16 word);
          s1 = s\<lparr>gsm7Length := gsm7Scan text (unat utf8Length) 0 0\<rparr>
      in if gsm7Length s1 \<noteq> 0 then planGsm7 s1 else planUcs2 (ucs2MessageLength text) s1)"

definition sendOneSmsChunk ::
  "'p codec \<Rightarrow> 32 word \<Rightarrow> cstring \<Rightarrow> cstring \<Rightarrow> 16 word \<Rightarrow> 8 word \<Rightarrow> 8 word \<Rightarrow> 'p session \<Rightarrow> 'p session" where
  "sendOneSmsChunk cd now number text msgId msgCount msgIndex s =
     (let (len, p) = encodePDU cd (smsPdu s) number text msgId msgCount msgIndex;
          s1 = s\<lparr>smsPdu := p\<rparr>
      in if len < 0 then s1
         else sendCommand now (strncpy (cstr ''AT+CMGS='' @ printInt len) 49) (Some SendSMStext)
                (cstr ''>'') 10000 0
                (s1\<lparr>gsmIdle := SIM7000_SEND, smsSentCount := smsSentCount s1 + 1\<rparr>))"

text \<open>The chunk \<open>sendSMS\<close> and \<open>sendNextSmsChunk\<close> cut for the index in
  \<open>smsMsgIndex\<close>, which they advance.\<close>

definition sendChunkAtIndex :: "'p codec \<Rightarrow> 32 word \<Rightarrow> cstring \<Rightarrow> 'p session \<Rightarrow> 'p session" where
  "sendChunkAtIndex cd now number s =
     (let startPos = (of_nat (unat (smsMsgIndex s) * unat (smsChunkSize s)) :: 16 word);
          s1 = s\<lparr>smsMsgIndex := smsMsgIndex s + 1\<rparr>
      in sendOneSmsChunk cd now number
           (substring (lastSentMessage s1) (unat startPos) (unat startPos + unat (smsChunkSize s1)))
           (smsMsgId s1) (smsMsgCount s1) (smsMsgIndex s1) s1)"

text \<open>\<open>sendSMS\<close>; \<open>dateStr\<close> is the local time \<open>strftime\<close> printed.\<close>

definition sendSMS :: "'p codec \<Rightarrow> 32 word \<Rightarrow> cstring \<Rightarrow> cstring \<Rightarrow> cstring \<Rightarrow> 'p session \<Rightarrow> 'p session" where
  "sendSMS cd now dateStr number text s =
     (let s1 = sendSMS_plan text s;
          s2 = s1\<lparr>lastSentNumber := number, lastSentMessage := text, lastSentDate := dateStr\<rparr>
      in if smsMsgCount s2 = 0 then sendOneSmsChunk cd now number text 0 0 0 s2
         else sendChunkAtIndex cd now number (s2\<lparr>smsMsgIndex := 0\<rparr>))"

definition sendNextSmsChunk :: "'p codec \<Rightarrow> 32 word \<Rightarrow> 'p session \<Rightarrow> 'p session" where
  "sendNextSmsChunk cd now s =
     (if smsMsgCount s \<noteq> 0 \<and> smsMsgIndex s < smsMsgCount s
      then sendChunkAtIndex cd now (lastSentNumber s) s
      else setIdle s)"

definition sendSMStext :: "'p codec \<Rightarrow> 32 word \<Rightarrow> 'p session \<Rightarrow> 'p session" where
  "sendSMStext cd now s =
     sendCommandByte now 0x1a (Some SendNextSmsChunk) (cstr ''+CMGS:'') 60000
       (s\<lparr>serialOut := serialOut s @ getSMS cd (smsPdu s)\<rparr>)"

section \<open>Init sequencer\<close>

record initStepsStruct =
  nextStep :: "step option"
  command :: cstring
  waitFor :: cstring
  timeout :: "32 word"
  repeat :: "8 word"

abbreviation STEP_SIZE :: nat where "STEP_SIZE \<equiv> 14"

definition initStep :: "step option \<Rightarrow> string \<Rightarrow> string \<Rightarrow> 32 word \<Rightarrow> 8 word \<Rightarrow> initStepsStruct" where
  "initStep r c w t n = \<lparr>nextStep = r, command = cstr c, waitFor = cstr w, timeout = t, repeat = n\<rparr>"

definition initSteps :: "initStepsStruct list" where
  "initSteps = [
     initStep None ''AT'' [] 1000 9,
     initStep None ''AT+IPR=115200'' [] SIM7000_CMD_TIMEOUT 0,
     initStep None ''ATE0'' [] SIM7000_CMD_TIMEOUT 0,
     initStep None ''AT+CMEE=2'' [] SIM7000_CMD_TIMEOUT 0,
     initStep None ''AT+CMGF=0'' [] SIM7000_CMD_TIMEOUT 0,
     initStep None ''AT+CNMP=51'' [] SIM7000_CMD_TIMEOUT 0,
     initStep None ''AT+CREG=2'' [] SIM7000_CMD_TIMEOUT 0,
     initStep None ''AT+CSDH=1'' [] SIM7000_CMD_TIMEOUT 0,
     initStep None ''AT+CMGD=1,4'' [] 10000 0,
     initStep None ''AT+CNMI=2,2,0,2,0'' [] SIM7000_CMD_TIMEOUT 0,
     initStep None ''AT+CREG?'' [] SIM7000_CMD_TIMEOUT 0,
     initStep None ''AT+CLTS=1'' [] SIM7000_CMD_TIMEOUT 0,
     initStep None ''AT+CSCA?'' ''+CSCA:'' 10000 0,
     initStep (Some GotSca) [] [] SIM7000_CMD_TIMEOUT 0]"

definition initComplete :: "'p session \<Rightarrow> 'p session" where
  "initComplete s =
     (if gsmStatus s \<noteq> 0 then s\<lparr>restartNeeded := True, restartReason := gsmStatus s\<rparr>
      else (let s1 = setIdle s in s1\<lparr>restartCount := restartCount s1 + 1\<rparr>))"

text \<open>\<open>strtok(s, d)\<close> with the single delimiter \<open>d\<close>: the token, the offset in
  \<open>s\<close> behind the token (where a NUL replaces the delimiter, if one is there) and the
  string the next \<open>strtok(NULL, d)\<close> goes on with; \<open>None\<close> for the NULL result.\<close>

definition strtok :: "cstring \<Rightarrow> byte \<Rightarrow> (cstring \<times> nat \<times> cstring) option" where
  "strtok s d =
     (let skipped = takeWhile (\<lambda>c. c = d) s;
          s1 = dropWhile (\<lambda>c. c = d) s
      in if s1 = [] then None
         else (let token = takeWhile (\<lambda>c. c \<noteq> d) s1
               in Some (token, length skipped + length token,
                        drop 1 (dropWhile (\<lambda>c. c \<noteq> d) s1))))"

text \<open>The check loop of \<open>gotSca\<close>: some byte is no digit, where the first byte may
  be a plus sign.\<close>

definition notDigit :: "byte \<Rightarrow> bool" where
  "notDigit c = (c < 0x30 \<or> c > 0x39)"

definition badScaNumber :: "cstring \<Rightarrow> bool" where
  "badScaNumber sca =
     (case sca of [] \<Rightarrow> False | c # cs \<Rightarrow> (notDigit c \<and> c \<noteq> 0x2b) \<or> list_ex notDigit cs)"

definition scaError :: "'p session \<Rightarrow> 'p session" where
  "scaError s = s\<lparr>restartReason := SIM7000_BAD_ANSWER, restartNeeded := True\<rparr>"

text \<open>The number of calls the init routines can still make from a value of
  \<open>stepPtr\<close>; it bounds their recursion.\<close>

definition initRank :: "8 word \<Rightarrow> nat" where
  "initRank p = (if unat p < 14 then 4 * (13 - unat p) + 1 else if unat p = 255 then 57 else 0)"

text \<open>
  The calls through a pointer to member (\<open>callStep\<close>) and the init routines, which
  call each other. In \<open>sendCurrentInitStep\<close> the call for a step with a \<open>waitFor\<close>
  of its own leaves \<open>repeat\<close> behind the closing parenthesis, so \<open>sendCommand\<close>
  gets its default 0 there. The first \<open>strtok\<close> of \<open>gotSca\<close> writes a NUL into
  \<open>lastAnswer\<close>, which ends it behind the first token. \<open>scaNumber\<close> holds 20
  bytes: for a token of 20 bytes or more \<open>strncpy\<close> leaves it without a NUL and the
  check loop of the source reads on behind the array, where the source defines no value;
  the model takes the check to fail there, so a restart is asked and no number goes to
  the codec.
\<close>

function callStep :: "'p codec \<Rightarrow> 32 word \<Rightarrow> step \<Rightarrow> 'p session \<Rightarrow> 'p session"
  and sendNextInitStep :: "'p codec \<Rightarrow> 32 word \<Rightarrow> 'p session \<Rightarrow> 'p session"
  and sendCurrentInitStep :: "'p codec \<Rightarrow> 32 word \<Rightarrow> 'p session \<Rightarrow> 'p session"
  and gotSca :: "'p codec \<Rightarrow> 32 word \<Rightarrow> 'p session \<Rightarrow> 'p session" where
  "callStep cd now st s =
     (case st of
        SetIdle \<Rightarrow> setIdle s
      | SendNextInitStep \<Rightarrow> sendNextInitStep cd now s
      | SendSMStext \<Rightarrow> sendSMStext cd now s
      | SendNextSmsChunk \<Rightarrow> sendNextSmsChunk cd now s
      | GotSca \<Rightarrow> gotSca cd now s)"
| "sendNextInitStep cd now s =
     (let s1 = s\<lparr>stepPtr := stepPtr s + 1\<rparr>
      in if unat (stepPtr s1) < STEP_SIZE then sendCurrentInitStep cd now s1
         else initComplete s1)"
| "sendCurrentInitStep cd now s =
     (if unat (stepPtr s) < STEP_SIZE then
        (let e = initSteps ! unat (stepPtr s)
         in case nextStep e of
              Some r \<Rightarrow> callStep cd now r s
            | None \<Rightarrow>
               (if waitFor e \<noteq> [] then
                  sendCommand now (command e) (Some SendNextInitStep) (waitFor e) (timeout e) 0 s
                else
                  sendCommand now (command e) (Some SendNextInitStep) DEFAULT_ANSWER (timeout e)
                    (repeat e) s))
      else s)"
| "gotSca cd now s =
     (case strstr (lastAnswer s) CSCA_INDICATOR of
        None \<Rightarrow> scaError s
      | Some off \<Rightarrow>
         (case strtok (drop off (lastAnswer s)) 0x22 of
            None \<Rightarrow> scaError s
          | Some (token1, tokenEnd, rest1) \<Rightarrow>
             (let s1 = s\<lparr>lastAnswer := take (off + tokenEnd) (lastAnswer s)\<rparr>
              in case strtok rest1 0x22 of
                   None \<Rightarrow> scaError s1
                 | Some (token2, tokenEnd2, rest2) \<Rightarrow>
                    (let scaNumber = strncpy token2 20
                     in if length token2 \<ge> 20 \<or> badScaNumber scaNumber then scaError s1
                        else sendNextInitStep cd now
                               (resetLastAnswer (s1\<lparr>smsPdu := setSCAnumber cd (smsPdu s1) scaNumber\<rparr>))))))"
  by pat_completeness auto
termination
proof (relation "measure (\<lambda>x. case x of
      Inl (Inl (cd, now, st, s)) \<Rightarrow> initRank (stepPtr s) + 2
    | Inl (Inr (cd, now, s)) \<Rightarrow> initRank (stepPtr s)
    | Inr (Inl (cd, now, s)) \<Rightarrow> initRank (stepPtr s) + 3
    | Inr (Inr (cd, now, s)) \<Rightarrow> initRank (stepPtr s) + 1)", goal_cases)
  case (4 cd now s s1)
  have b: "unat (stepPtr s) < 256"
    using unsigned_less[of "stepPtr s", where 'a = nat] by simp
  have "initRank (stepPtr s + 1) + 3 < initRank (stepPtr s)"
  proof (cases "unat (stepPtr s) = 255")
    case True
    then show ?thesis by (simp add: initRank_def unat_word_ariths)
  next
    case False
    with b have "Suc (unat (stepPtr s)) mod 256 = Suc (unat (stepPtr s))" by simp
    with 4 show ?thesis
      by (simp add: initRank_def unat_word_ariths)
  qed
  with 4 show ?case by simp
qed (simp_all add: resetLastAnswer_def)

declare callStep.simps [simp del]
declare sendNextInitStep.simps [simp del]
declare sendCurrentInitStep.simps [simp del]
declare gotSca.simps [simp del]

definition waitSmsReady :: "32 word \<Rightarrow> 32 word \<Rightarrow> step option \<Rightarrow> 'p session \<Rightarrow> 'p session" where
  "waitSmsReady now waitMs next s =
     s\<lparr>gsmTimeout := waitMs, gsmStatus := SIM7000_RUNNING, nextStepCb := next, startTime := now,
       inReceive := False, inWait := True, inWaitSmsReady := True\<rparr>"

definition waitUntilSmsReady :: "'p codec \<Rightarrow> 32 word \<Rightarrow> 'p session \<Rightarrow> 'p session" where
  "waitUntilSmsReady cd now s =
     (if \<not> smsReady s then waitSmsReady now 30000 (Some SendNextInitStep) s
      else sendNextInitStep cd now s)"

definition sendAT :: "32 word \<Rightarrow> cstring \<Rightarrow> 'p session \<Rightarrow> 'p session" where
  "sendAT now cmd s =
     (sendCommand now cmd None DEFAULT_ANSWER SIM7000_CMD_TIMEOUT 0 s)\<lparr>inReceive := False\<rparr>"

definition sendEOF :: "32 word \<Rightarrow> 'p session \<Rightarrow> 'p session" where
  "sendEOF now s =
     (sendCommandByte now 0x1a None DEFAULT_ANSWER SIM7000_CMD_TIMEOUT s)\<lparr>inReceive := False\<rparr>"

section \<open>SMS reception\<close>

definition deleteSMS :: "32 word \<Rightarrow> int \<Rightarrow> int \<Rightarrow> 'p session \<Rightarrow> 'p session" where
  "deleteSMS now idx flag s =
     sendCommand now (strncpy (cstr ''AT+CMGD='' @ printInt idx @ cstr '','' @ printInt flag) 49)
       (Some SetIdle) DEFAULT_ANSWER 20000 0 s"

definition readSmsHeader :: "cstring \<Rightarrow> 'p session \<Rightarrow> 'p session" where
  "readSmsHeader msg s =
     (let s1 = s\<lparr>index := 0\<rparr>
      in case strstr msg SMS_INDICATOR of
           None \<Rightarrow> s1
         | Some off \<Rightarrow> s1\<lparr>nextLineIsSmsMessage := True\<rparr>)"

text \<open>\<open>readSmsMessage\<close>; the call of the registered \<open>readSmsCb\<close> is recorded in
  \<open>callbacks\<close>.\<close>

definition readSmsMessage :: "'p codec \<Rightarrow> 32 word \<Rightarrow> cstring \<Rightarrow> 'p session \<Rightarrow> 'p session" where
  "readSmsMessage cd now msg s =
     (let (ok, p) = decodePDU cd (smsPdu s) msg;
          s1 = s\<lparr>smsPdu := p\<rparr>;
          s2 = (if ok then
                  (let s3 = s1\<lparr>lastReceivedNumber := getSender cd p,
                               lastReceivedDate := getTimeStamp cd p,
                               lastReceivedMessage := getText cd p,
                               smsForwardedCount := smsForwardedCount s1 + 1\<rparr>
                   in if readSmsCb s3 then
                        s3\<lparr>callbacks := callbacks s3 @
                             [ReadSms (lastReceivedNumber s3) (lastReceivedDate s3)
                                (lastReceivedMessage s3)]\<rparr>
                      else s3)
                else s1)
      in deleteSMS now 1 2 s2)"

section \<open>Power bootstrap and the poll function\<close>

text \<open>\<open>SIM7000_PIN_ACTIVE\<close> is \<open>HIGH\<close> (1), \<open>SIM7000_PIN_INACTIVE\<close> is \<open>LOW\<close>
  (0).\<close>

definition setPowerPin :: "32 word \<Rightarrow> 'p session \<Rightarrow> 'p session" where
  "setPowerPin now s =
     (let powerState = (if powerStep s mod 2 = 1 then 0 else 1)
      in s\<lparr>pins := pins s @ [DigitalWrite (modemPowerPin s) powerState],
            powerStepStartTime := now\<rparr>)"

text \<open>\<open>openModem\<close> opens the port and drops the bytes waiting in it.\<close>

definition openModem :: "'p session \<Rightarrow> 'p session" where
  "openModem s = s\<lparr>serialIn := [], smsReady := False\<rparr>"

definition open' :: "'p codec \<Rightarrow> 32 word \<Rightarrow> 'p session \<Rightarrow> 'p session" where
  "open' cd now s =
     sendCurrentInitStep cd now
       ((openModem s)\<lparr>stepPtr := 0, stepMaxRepeatcount := 0, stepRepeatCount := 0\<rparr>)"


text \<open>\<open>powerStepDuration[powerStep]\<close>; \<open>None\<close> when the index is outside the array.\<close>

definition stepDuration :: "'p session \<Rightarrow> 32 word option" where
  "stepDuration s =
     (if 0 \<le> powerStep s \<and> nat (powerStep s) < length (powerStepDuration s)
      then Some (powerStepDuration s ! nat (powerStep s)) else None)"

text \<open>The end of a command in \<open>doLoop\<close>: \<open>if (nextStepCb) { (this->*nextStepCb)();
  return; } setIdle(); return;\<close>\<close>

definition nextStepOrIdle :: "'p codec \<Rightarrow> 32 word \<Rightarrow> 'p session \<Rightarrow> 'p session" where
  "nextStepOrIdle cd now s =
     (case nextStepCb s of Some st \<Rightarrow> callStep cd now st s | None \<Rightarrow> setIdle s)"

text \<open>What a part of \<open>doLoop\<close> does to the loop over the serial port: it returns from
  \<open>doLoop\<close>, or the loop goes on.\<close>

datatype 'a flow = Return 'a | Continue 'a

text \<open>\<open>doLoop\<close> at a line feed (\<open>FF_SIM6000_SET_TIME_FROM_GSM_NETWORK\<close> is not
  defined). \<open>sizeof(CREG_MSG)\<close> counts the terminating NUL.\<close>

definition gotLine :: "'p codec \<Rightarrow> 32 word \<Rightarrow> 'p session \<Rightarrow> 'p session flow" where
  "gotLine cd now s =
     (case strstr (lastAnswer s) CREG_MSG of
        Some off \<Rightarrow>
          (let ptrStr = (if strstr (lastCommand s) CREG_QUERY \<noteq> None
                         then off + ((length CREG_MSG + 1) + 1)
                         else off + ((length CREG_MSG + 1) - 1));
               result = byteAt (lastAnswer s) ptrStr
           in Return (resetLastAnswer (s\<lparr>smsReady := (result = 0x31 \<or> result = 0x35)\<rparr>)))
      | None \<Rightarrow>
          (let isDefaultAnwer = (expectedAnswer s = DEFAULT_ANSWER)
           in if inReceive s
                 \<and> ((isDefaultAnwer \<and> lastAnswer s = expectedAnswer s)
                    \<or> (\<not> isDefaultAnwer \<and> strstr (lastAnswer s) (expectedAnswer s) \<noteq> None))
              then Return (nextStepOrIdle cd now (s\<lparr>gsmStatus := SIM7000_OK\<rparr>))
              else if inReceive s \<and> \<not> ignoreErrors s
                 \<and> (strstr (lastAnswer s) (cstr ''+CMS ERROR'') \<noteq> None
                    \<or> strstr (lastAnswer s) (cstr ''+CME ERROR'') \<noteq> None)
              then Return (setIdle (s\<lparr>gsmStatus := SIM7000_CM_ERROR, restartNeeded := True,
                                      restartReason := SIM7000_CM_ERROR\<rparr>))
              else if lastAnswer s \<noteq> [] then
                (if nextLineIsSmsMessage s then
                   Return ((resetLastAnswer (readSmsMessage cd now (lastAnswer s) s))
                             \<lparr>nextLineIsSmsMessage := False\<rparr>)
                 else if strstr (lastAnswer s) SMS_INDICATOR \<noteq> None then
                   Return ((resetLastAnswer
                              (readSmsHeader (lastAnswer s)
                                 (s\<lparr>lastCommand := strncpy (lastAnswer s) 30\<rparr>)))
                             \<lparr>inReceive := True, gsmTimeout := 2000, startTime := now\<rparr>)
                 else
                   Return (resetLastAnswer
                             (if recvLineCb s
                              then s\<lparr>callbacks := callbacks s @ [RecvLine (lastAnswer s)]\<rparr>
                              else s)))
              else Continue s))"

text \<open>The body of the loop over the serial port for the byte \<open>c\<close> just read.
  \<open>answerLen\<close> is the length of \<open>lastAnswer\<close> throughout: every path that empties
  the buffer returns.\<close>

definition gotByte :: "'p codec \<Rightarrow> 32 word \<Rightarrow> byte \<Rightarrow> 'p session \<Rightarrow> 'p session flow" where
  "gotByte cd now c s =
     (if c \<noteq> 0 \<and> c \<noteq> 13 then
        (if length (lastAnswer s) \<ge> MAX_ANSWER - 2 then
           Return (resetLastAnswer (s\<lparr>gsmStatus := SIM7000_TOO_LONG\<rparr>))
         else if c = 10 then gotLine cd now s
         else
           (let s1 = s\<lparr>lastAnswer := lastAnswer s @ [c]\<rparr>
            in if length (expectedAnswer s1) = 1 \<and> c = byteAt (expectedAnswer s1) 0
               then Return (nextStepOrIdle cd now (s1\<lparr>gsmStatus := SIM7000_OK\<rparr>))
               else Continue s1))
      else Continue s)"

text \<open>The loop \<open>while (Sim7000Serial.available())\<close> over the bytes waiting in the
  port.\<close>

primrec readModem :: "'p codec \<Rightarrow> 32 word \<Rightarrow> byte list \<Rightarrow> 'p session \<Rightarrow> 'p session flow" where
  "readModem cd now [] s = Continue s"
| "readModem cd now (c # cs) s =
     (case gotByte cd now c (s\<lparr>modemSpeaking := True, serialIn := cs\<rparr>) of
        Return s1 \<Rightarrow> Return s1
      | Continue s1 \<Rightarrow> readModem cd now cs s1)"

text \<open>\<open>doLoop\<close> behind the loop: the time-out of a command and the two waits.\<close>

definition checkTimeouts :: "'p codec \<Rightarrow> 32 word \<Rightarrow> 'p session \<Rightarrow> 'p session" where
  "checkTimeouts cd now s =
     (if inReceive s \<and> now - startTime s \<ge> gsmTimeout s then
        (if ignoreErrors s then nextStepOrIdle cd now s
         else if stepRepeatCount s < stepMaxRepeatcount s then
           sendCurrentInitStep cd now (s\<lparr>stepRepeatCount := stepRepeatCount s + 1\<rparr>)
         else if lastAnswer s \<noteq> [] then
           setIdle (s\<lparr>gsmStatus := SIM7000_BAD_ANSWER, restartNeeded := True,
                      restartReason := SIM7000_BAD_ANSWER\<rparr>)
         else
           setIdle (s\<lparr>gsmStatus := SIM7000_TIMEOUT, restartNeeded := True,
                      restartReason := SIM7000_TIMEOUT\<rparr>))
      else if inWaitSmsReady s \<and> smsReady s then
        nextStepOrIdle cd now (s\<lparr>inWait := False, inWaitSmsReady := False, gsmStatus := SIM7000_OK\<rparr>)
      else if inWait s \<and> now - startTime s \<ge> gsmTimeout s then
        nextStepOrIdle cd now (s\<lparr>inWait := False, gsmStatus := SIM7000_OK\<rparr>)
      else s)"

text \<open>\<open>doLoop\<close>, with \<open>now\<close> the value of \<open>millis()\<close> during the call. The result
  is \<open>None\<close> when the power sequence reads outside \<open>powerStepDuration\<close>.\<close>

definition doLoop :: "'p codec \<Rightarrow> 32 word \<Rightarrow> 'p session \<Rightarrow> 'p session option" where
  "doLoop cd now s =
     (if powerStepStartTime s \<noteq> 0 then
        (case stepDuration s of
           None \<Rightarrow> None
         | Some d \<Rightarrow>
            (if now - powerStepStartTime s \<ge> d then
               (let s1 = setPowerPin now (s\<lparr>powerStep := powerStep s + 1\<rparr>)
                in case stepDuration s1 of
                     None \<Rightarrow> None
                   | Some d1 \<Rightarrow>
                      (if d1 = 0 then
                         Some (open' cd now
                                 (s1\<lparr>powerStepStartTime := 0,
                                     pins := pins s1 @ [PinMode (modemPowerPin s1) OUTPUT_OPEN_DRAIN]\<rparr>))
                       else Some s1))
             else Some s))
      else
        Some (case readModem cd now (serialIn s) s of
                Return s1 \<Rightarrow> s1
              | Continue s1 \<Rightarrow> checkTimeouts cd now s1))"

section \<open>Reference notions and concrete inputs\<close>

text \<open>The number of UTF-8 code points of a text: its bytes that are no continuation
  byte \<open>10xxxxxx\<close>.\<close>

definition utf8CodePoints :: "cstring \<Rightarrow> nat" where
  "utf8CodePoints text = length (filter (\<lambda>c. c AND 0xc0 \<noteq> 0x80) text)"

text \<open>The match of a completed line with the expected pattern of the pending command:
  equality for the default answer \<open>OK\<close>, an occurrence anywhere in the line for every
  other pattern. And the device error marker of a line.\<close>

definition answerMatches :: "cstring \<Rightarrow> cstring \<Rightarrow> bool" where
  "answerMatches expected line =
     (if expected = DEFAULT_ANSWER then line = expected else strstr line expected \<noteq> None)"

definition deviceError :: "cstring \<Rightarrow> bool" where
  "deviceError line =
     (strstr line (cstr ''+CMS ERROR'') \<noteq> None \<or> strstr line (cstr ''+CME ERROR'') \<noteq> None)"

text \<open>A codec that accepts every message and keeps the texts it was given, one that
  rejects every message with \<open>GSM7_TOO_LONG\<close>, and one with fixed answers that decodes
  a single PDU.\<close>

definition recordingCodec :: "(cstring list) codec" where
  "recordingCodec = \<lparr>
     encodePDU = (\<lambda>p number text msgId msgCount msgIndex. (int (length text), p @ [text])),
     getSMS = (\<lambda>p. []), decodePDU = (\<lambda>p l. (False, p)), getSender = (\<lambda>p. []),
     getTimeStamp = (\<lambda>p. []), getText = (\<lambda>p. []), setSCAnumber = (\<lambda>p n. p) \<rparr>"

definition failingCodec :: "unit codec" where
  "failingCodec = \<lparr>
     encodePDU = (\<lambda>p number text msgId msgCount msgIndex. (- 3, p)),
     getSMS = (\<lambda>p. []), decodePDU = (\<lambda>p l. (False, p)), getSender = (\<lambda>p. []),
     getTimeStamp = (\<lambda>p. []), getText = (\<lambda>p. []), setSCAnumber = (\<lambda>p n. p) \<rparr>"

definition testCodec :: "unit codec" where
  "testCodec = \<lparr>
     encodePDU = (\<lambda>p number text msgId msgCount msgIndex. (int (length text), p)),
     getSMS = (\<lambda>p. cstr ''0011''),
     decodePDU = (\<lambda>p l. (l = cstr ''07913396'', p)),
     getSender = (\<lambda>p. cstr ''+33123''), getTimeStamp = (\<lambda>p. cstr ''250402094927''),
     getText = (\<lambda>p. cstr ''hello''), setSCAnumber = (\<lambda>p n. p) \<rparr>"

text \<open>45 Euro signs (135 bytes) and the session after \<open>sendSMS\<close> and two calls of
  \<open>sendNextSmsChunk\<close> for them; 70 and 71 grave accents; a text of 65537 bytes: a
  letter and 65536 grave accents; 32768 grave accents.\<close>

definition euro45 :: cstring where
  "euro45 = concat (replicate 45 [0xe2, 0x82, 0xac])"

definition euroSent :: "(cstring list) session" where
  "euroSent = sendNextSmsChunk recordingCodec 0 (sendNextSmsChunk recordingCodec 0
                (sendSMS recordingCodec 0 [] (cstr ''+33123'') euro45 (FF_Sim7000 [])))"

definition grave70 :: cstring where
  "grave70 = replicate 70 0x60"

definition grave71 :: cstring where
  "grave71 = replicate 71 0x60"

definition longText :: cstring where
  "longText = 0x61 # replicate 65536 0x60"

definition wrapText :: cstring where
  "wrapText = replicate 32768 0x60"










definition cscaPending :: "unit session" where
  "cscaPending = (sendCurrentInitStep testCodec 0 ((FF_Sim7000 ())\<lparr>stepPtr := 12\<rparr>))
      \<lparr>serialIn := cstr ''+CREG: 1,+CSCA: 33'' @ [10]\<rparr>"

definition cregQueried :: "unit session" where
  "cregQueried = (sendCommand 0 (cstr ''AT+CREG?'') (Some SendNextInitStep) DEFAULT_ANSWER 4000 0
      (FF_Sim7000 ()))\<lparr>lastAnswer := cstr ''+CREG: 2,1'', serialIn := [10]\<rparr>"

definition cregPushed :: "unit session" where
  "cregPushed = (sendCommand 0 (cstr ''AT+CLTS=1'') (Some SendNextInitStep) DEFAULT_ANSWER 4000 0
      (FF_Sim7000 ()))\<lparr>lastAnswer := cstr ''+CREG: 5'', serialIn := [10]\<rparr>"

definition deletePending :: "unit session" where
  "deletePending = deleteSMS 0 1 2 (FF_Sim7000 ())"


definition okAfterDelete :: "unit session" where
  "okAfterDelete = deletePending\<lparr>lastAnswer := cstr ''OK'', serialIn := [10]\<rparr>"

definition errorAfterDelete :: "unit session" where
  "errorAfterDelete = deletePending\<lparr>lastAnswer := cstr ''+CMS ERROR: 321'', serialIn := [10]\<rparr>"

definition nearOkAfterDelete :: "unit session" where
  "nearOkAfterDelete = deletePending\<lparr>lastAnswer := cstr ''xOKx'', serialIn := [10]\<rparr>"

definition okSpaceAfterDelete :: "unit session" where
  "okSpaceAfterDelete = deletePending\<lparr>lastAnswer := cstr ''OK '', serialIn := [10]\<rparr>"

section \<open>The encoding decision and the chunk plan\<close>

lemma gsm7Scan_unsupported:
  "i \<le> j \<Longrightarrow> j < n \<Longrightarrow>
   getGsm7EquivalentLen (t ! j) (if j + 1 < n then t ! (j + 1) else 0)
     (if j + 2 < n then t ! (j + 2) else 0) = 0 \<Longrightarrow>
   gsm7Scan t n i len = 0"
proof (induction t n i len rule: gsm7Scan.induct)
  case (1 t n i len)
  show ?case
  proof (cases "i = j")
    case True
    with "1.prems" show ?thesis by (subst gsm7Scan.simps) (auto simp add: Let_def)
  next
    case False
    with "1.prems" have lt: "i < n" and le: "i + 1 \<le> j" by auto
    show ?thesis
      using lt "1.IH" "1.prems" le
      by (subst gsm7Scan.simps) (simp add: Let_def)
  qed
qed

lemma utf8CharCount_eq:
  "utf8CharCount t n = n + of_nat (utf8CodePoints t)"
  by (induction t arbitrary: n) (simp_all add: utf8CodePoints_def)

lemma ucs2MessageLength_eq: "ucs2MessageLength t = of_nat (2 * utf8CodePoints t)"
  by (simp add: ucs2MessageLength_def utf8CharCount_eq)

lemma ucs2MessageLength_unat: "unat (ucs2MessageLength t) = 2 * utf8CodePoints t mod 65536"
  unfolding ucs2MessageLength_eq by (simp only: unat_of_nat) simp

text \<open>The 16-bit length is always even: no message has a 16-bit length of 71.\<close>

lemma ucs2MessageLength_even: "even (unat (ucs2MessageLength t))"
  unfolding ucs2MessageLength_unat
  by (metis dvd_mod dvd_triv_left even_numeral)

text \<open>The chunk plan at the capacities, as a function of the length \<open>sendSMS\<close>
  computed.\<close>

lemma planGsm7_160:
  "gsm7Length s = 160 \<Longrightarrow> planGsm7 s = s\<lparr>smsMsgCount := 0\<rparr>"
  by (simp add: planGsm7_def)

lemma planGsm7_161:
  "gsm7Length s = 161 \<Longrightarrow>
   planGsm7 s = s\<lparr>smsMsgCount := 2, smsMsgId := smsMsgId s + 1, smsChunkSize := 152\<rparr>"
  by (simp add: planGsm7_def)

text \<open>A text of 160 letters is planned unsplit, one of 161 letters in 2 chunks of size
  152 with a new \<open>smsMsgId\<close>.\<close>

lemma sendSMS_plan_gsm7_boundary:
  "gsm7Length (sendSMS_plan (replicate 160 0x61) (FF_Sim7000 ())) = 160
     \<and> smsMsgCount (sendSMS_plan (replicate 160 0x61) (FF_Sim7000 ())) = 0
     \<and> smsMsgId (sendSMS_plan (replicate 160 0x61) (FF_Sim7000 ())) = 0
     \<and> gsm7Length (sendSMS_plan (replicate 161 0x61) (FF_Sim7000 ())) = 161
     \<and> smsMsgCount (sendSMS_plan (replicate 161 0x61) (FF_Sim7000 ())) = 2
     \<and> smsChunkSize (sendSMS_plan (replicate 161 0x61) (FF_Sim7000 ())) = 152
     \<and> smsMsgId (sendSMS_plan (replicate 161 0x61) (FF_Sim7000 ())) = 1"
  by code_simp

lemma planUcs2_70: "planUcs2 70 s = s\<lparr>smsMsgCount := 0\<rparr>"
  by (simp add: planUcs2_def)

lemma planUcs2_72:
  "planUcs2 72 s = s\<lparr>smsMsgCount := 2, smsMsgId := smsMsgId s + 1, smsChunkSize := 67\<rparr>"
  by (simp add: planUcs2_def)

text \<open>
  C1 (the code departs from the claim). \<open>sendSMS\<close> counts the chunks from the encoded
  length, but \<open>sendSMS\<close> and \<open>sendNextSmsChunk\<close> cut the chunks at byte offsets of
  the UTF-8 text. For 45 Euro signs (135 bytes, 16-bit length 90) the plan has 2 chunks of
  size 67; the codec is handed the bytes 0 to 66 and 67 to 133, then the session goes
  idle: the last chunk ends at byte 134, not at the length 135 of the text.
\<close>

theorem sendSMS_multibyte_last_chunk_short:
  "length euro45 = 135 \<and> ucs2MessageLength euro45 = 90 \<and> gsm7Length euroSent = 0
     \<and> smsMsgCount euroSent = 2 \<and> smsChunkSize euroSent = 67 \<and> smsMsgIndex euroSent = 2
     \<and> gsmIdle euroSent = SIM7000_IDLE
     \<and> smsPdu euroSent = [substring euro45 0 67, substring euro45 67 134]
     \<and> concat (smsPdu euroSent) = take 134 euro45"
  by code_simp

text \<open>
  C2, amended. For every text of fewer than 65536 bytes: when
  \<open>getGsm7EquivalentLen\<close> returns 0 at some byte position of the text, \<open>sendSMS\<close>
  leaves \<open>gsm7Length\<close> at 0 and plans the whole message from the 16-bit length, which
  is twice the number of UTF-8 code points of the full text, kept in 16 bits; nothing of
  the 7-bit count enters the plan.
\<close>

theorem sendSMS_plan_unsupported_is_ucs2:
  assumes len: "length text < 65536" and j: "j < length text"
    and unsup: "getGsm7EquivalentLen (byteAt text j) (byteAt text (j + 1)) (byteAt text (j + 2)) = 0"
  shows "gsm7Length (sendSMS_plan text s) = 0
     \<and> sendSMS_plan text s = planUcs2 (ucs2MessageLength text) (s\<lparr>gsm7Length := 0\<rparr>)
     \<and> unat (ucs2MessageLength text) = 2 * utf8CodePoints text mod 65536"
proof -
  have u: "unat (of_nat (length text) :: 16 word) = length text"
    using len by (simp add: unat_of_nat)
  have "gsm7Scan text (length text) 0 0 = 0"
    using j unsup by (intro gsm7Scan_unsupported[where j = j]) (auto simp: byteAt_def)
  then have eq: "sendSMS_plan text s = planUcs2 (ucs2MessageLength text) (s\<lparr>gsm7Length := 0\<rparr>)"
    by (simp add: sendSMS_plan_def u)
  moreover have "gsm7Length (planUcs2 l t) = gsm7Length t" for l and t :: "'a session"
    by (simp add: planUcs2_def)
  ultimately show ?thesis by (simp add: ucs2MessageLength_unat)
qed

theorem sendSMS_plan_unsupported_is_ucs2_witness:
  "length [0x61, 0x60 :: byte] < 65536 \<and> (1 :: nat) < length [0x61, 0x60 :: byte]
     \<and> getGsm7EquivalentLen (byteAt [0x61, 0x60] 1) (byteAt [0x61, 0x60] 2) (byteAt [0x61, 0x60] 3) = 0
     \<and> gsm7Length (sendSMS_plan [0x61, 0x60] (FF_Sim7000 ())) = 0
     \<and> unat (ucs2MessageLength [0x61, 0x60]) = 4"
  using sendSMS_plan_unsupported_is_ucs2[of "[0x61, 0x60]" 1 "FF_Sim7000 ()"]
  by (simp add: byteAt_def getGsm7EquivalentLen_def utf8CodePoints_def planUcs2_def)

text \<open>
  The claim as stated fails for a text of 65537 bytes: \<open>utf8Length\<close> is 16 bits wide
  and becomes 1, the scan sees the first letter only, and the message is planned in 7-bit
  accounting with a length of 1 although \<open>getGsm7EquivalentLen\<close> returns 0 at its
  second byte. And for 32768 characters the 16-bit length is 0, not twice their number.
\<close>

theorem sendSMS_plan_long_text_counterexample:
  "length longText = 65537
     \<and> getGsm7EquivalentLen (byteAt longText 1) (byteAt longText 2) (byteAt longText 3) = 0
     \<and> gsm7Length (sendSMS_plan longText (FF_Sim7000 ())) = 1
     \<and> smsMsgCount (sendSMS_plan longText (FF_Sim7000 ())) = 0
     \<and> utf8CodePoints wrapText = 32768 \<and> ucs2MessageLength wrapText = 0"
proof -
  have w: "utf8CodePoints wrapText = 32768"
    by (simp add: utf8CodePoints_def wrapText_def)
  have w2: "ucs2MessageLength wrapText = 0"
    unfolding ucs2MessageLength_eq w by simp
  have l: "length longText = 65537" by (simp add: longText_def)
  have u: "unat (of_nat (length longText) :: 16 word) = 1" by (simp add: l)
  have g: "gsm7Scan longText (Suc 0) 0 0 = 1"
    by (simp add: gsm7Scan.simps[of _ _ 0] gsm7Scan.simps[of _ _ "Suc 0"]
          longText_def getGsm7EquivalentLen_def)
  have b: "getGsm7EquivalentLen (byteAt longText 1) (byteAt longText 2) (byteAt longText 3) = 0"
    by (simp add: longText_def byteAt_def getGsm7EquivalentLen_def)
  show ?thesis
    using b w w2 by (simp add: sendSMS_plan_def u g planGsm7_def l Let_def)
qed

text \<open>
  C3 (the code departs from the claim). The 7-bit part holds (\<open>planGsm7_160\<close>,
  \<open>planGsm7_161\<close>, \<open>sendSMS_plan_gsm7_boundary\<close>), and so does the increment
  of \<open>smsMsgId\<close>. For the 16-bit
  encoding \<open>sendSMS\<close> compares twice the number of characters with 70: a text of 70
  UCS-2 characters has the 16-bit length 140 and is split into 3 chunks, and so is a text
  of 71 characters.
\<close>

theorem sendSMS_plan_ucs2_70_characters_split:
  "utf8CodePoints grave70 = 70 \<and> ucs2MessageLength grave70 = 140
     \<and> gsm7Length (sendSMS_plan grave70 (FF_Sim7000 ())) = 0
     \<and> smsMsgCount (sendSMS_plan grave70 (FF_Sim7000 ())) = 3
     \<and> smsChunkSize (sendSMS_plan grave70 (FF_Sim7000 ())) = 67
     \<and> smsMsgId (sendSMS_plan grave70 (FF_Sim7000 ())) = 1
     \<and> utf8CodePoints grave71 = 71
     \<and> smsMsgCount (sendSMS_plan grave71 (FF_Sim7000 ())) = 3"
  by code_simp

section \<open>Sending one chunk\<close>

text \<open>
  C10. When \<open>encodePDU\<close> returns a negative length, \<open>sendOneSmsChunk\<close> changes no
  member of the session (the codec object is what \<open>encodePDU\<close> left): nothing is
  written to the serial port, no command is counted, \<open>smsSentCount\<close> and the mode
  \<open>gsmIdle\<close> keep their values. With a length of 0 or more the mode becomes
  \<open>SIM7000_SEND\<close>.
\<close>

theorem sendOneSmsChunk_encode_error:
  assumes "encodePDU cd (smsPdu s) number text msgId msgCount msgIndex = (len, p)"
  shows "(len < 0 \<longrightarrow>
            sendOneSmsChunk cd now number text msgId msgCount msgIndex s = s\<lparr>smsPdu := p\<rparr>
          \<and> serialOut (sendOneSmsChunk cd now number text msgId msgCount msgIndex s) = serialOut s
          \<and> commandCount (sendOneSmsChunk cd now number text msgId msgCount msgIndex s) = commandCount s
          \<and> smsSentCount (sendOneSmsChunk cd now number text msgId msgCount msgIndex s) = smsSentCount s
          \<and> gsmIdle (sendOneSmsChunk cd now number text msgId msgCount msgIndex s) = gsmIdle s)
     \<and> (0 \<le> len \<longrightarrow>
            gsmIdle (sendOneSmsChunk cd now number text msgId msgCount msgIndex s) = SIM7000_SEND
          \<and> smsSentCount (sendOneSmsChunk cd now number text msgId msgCount msgIndex s) = smsSentCount s + 1)"
  using assms by (simp add: sendOneSmsChunk_def sendCommand_def Let_def resetLastAnswer_def)

theorem sendOneSmsChunk_encode_error_witness:
  "encodePDU failingCodec (smsPdu (FF_Sim7000 ())) (cstr ''+33123'') (cstr ''hello'') 0 0 0 = (- 3, ())
     \<and> sendOneSmsChunk failingCodec 7 (cstr ''+33123'') (cstr ''hello'') 0 0 0 (FF_Sim7000 ())
         = FF_Sim7000 ()
     \<and> encodePDU recordingCodec (smsPdu (FF_Sim7000 [])) (cstr ''+33123'') (cstr ''hello'') 0 0 0
         = (5, [cstr ''hello''])
     \<and> gsmIdle (sendOneSmsChunk recordingCodec 7 (cstr ''+33123'') (cstr ''hello'') 0 0 0
         (FF_Sim7000 [])) = SIM7000_SEND"
proof -
  have h1: "encodePDU failingCodec (smsPdu (FF_Sim7000 ())) (cstr ''+33123'') (cstr ''hello'') 0 0 0
      = (- 3, ())"
    by (simp add: failingCodec_def)
  have h2: "encodePDU recordingCodec (smsPdu (FF_Sim7000 [])) (cstr ''+33123'') (cstr ''hello'') 0 0 0
      = (5, [cstr ''hello''])"
    by (simp add: recordingCodec_def FF_Sim7000_def cstr_def)
  have "sendOneSmsChunk failingCodec 7 (cstr ''+33123'') (cstr ''hello'') 0 0 0 (FF_Sim7000 ())
      = (FF_Sim7000 ())\<lparr>smsPdu := ()\<rparr>"
    using sendOneSmsChunk_encode_error[OF h1, of 7] by simp
  then have a: "sendOneSmsChunk failingCodec 7 (cstr ''+33123'') (cstr ''hello'') 0 0 0 (FF_Sim7000 ())
      = FF_Sim7000 ()"
    by (simp add: FF_Sim7000_def)
  have b: "gsmIdle (sendOneSmsChunk recordingCodec 7 (cstr ''+33123'') (cstr ''hello'') 0 0 0
      (FF_Sim7000 [])) = SIM7000_SEND"
    using sendOneSmsChunk_encode_error[OF h2, of 7] by simp
  show ?thesis using h1 h2 a b by simp
qed

section \<open>The init table\<close>

lemma initSteps_facts:
  "\<forall>e \<in> set initSteps. nextStep e = None \<longrightarrow>
     command e \<noteq> [] \<and> length (command e) < 30 \<and> length (waitFor e) < 10
     \<and> (waitFor e \<noteq> [] \<longrightarrow> repeat e = 0)"
  by (simp add: initSteps_def initStep_def cstr_def)

lemma length_initSteps: "length initSteps = 14"
  by (simp add: initSteps_def)

lemma sendCurrentInitStep_plain:
  assumes i: "i < STEP_SIZE" and p: "stepPtr s = of_nat i" and r: "nextStep (initSteps ! i) = None"
  shows "sendCurrentInitStep cd now s =
           sendCommand now (command (initSteps ! i)) (Some SendNextInitStep)
             (if waitFor (initSteps ! i) = [] then DEFAULT_ANSWER else waitFor (initSteps ! i))
             (timeout (initSteps ! i)) (repeat (initSteps ! i)) s"
proof -
  have u: "unat (stepPtr s) = i" using i p by (simp add: unat_of_nat)
  have "initSteps ! i \<in> set initSteps" using i by (simp add: length_initSteps)
  with initSteps_facts r have "waitFor (initSteps ! i) \<noteq> [] \<longrightarrow> repeat (initSteps ! i) = 0"
    by blast
  then show ?thesis
    using i r by (simp add: sendCurrentInitStep.simps u Let_def)
qed

text \<open>
  C8. For every entry \<open>i\<close> of \<open>initSteps\<close> without a routine, \<open>sendCurrentInitStep\<close>
  is the call of \<open>sendCommand\<close> with the command of the entry, \<open>sendNextInitStep\<close>
  as continuation, the \<open>waitFor\<close> of the entry (\<open>OK\<close> when it is empty), its
  \<open>timeout\<close> and its \<open>repeat\<close>: the command goes to the serial port, and the
  pattern, the time-out, the retry budget and the continuation of the pending command are
  those. (For an entry with a \<open>waitFor\<close> the source passes no \<open>repeat\<close>;
  \<open>repeat\<close> is 0 in the one such entry of the table.)
\<close>

theorem sendCurrentInitStep_issues_step:
  assumes i: "i < STEP_SIZE" and p: "stepPtr s = of_nat i" and r: "nextStep (initSteps ! i) = None"
  shows "sendCurrentInitStep cd now s =
           sendCommand now (command (initSteps ! i)) (Some SendNextInitStep)
             (if waitFor (initSteps ! i) = [] then DEFAULT_ANSWER else waitFor (initSteps ! i))
             (timeout (initSteps ! i)) (repeat (initSteps ! i)) s
       \<and> serialOut (sendCurrentInitStep cd now s) = serialOut s @ command (initSteps ! i) @ [13]
       \<and> expectedAnswer (sendCurrentInitStep cd now s) =
           (if waitFor (initSteps ! i) = [] then DEFAULT_ANSWER else waitFor (initSteps ! i))
       \<and> gsmTimeout (sendCurrentInitStep cd now s) = timeout (initSteps ! i)
       \<and> stepMaxRepeatcount (sendCurrentInitStep cd now s) = repeat (initSteps ! i)
       \<and> nextStepCb (sendCurrentInitStep cd now s) = Some SendNextInitStep"
proof -
  have "initSteps ! i \<in> set initSteps" using i by (simp add: length_initSteps)
  with initSteps_facts r have f: "command (initSteps ! i) \<noteq> []" "length (waitFor (initSteps ! i)) < 10"
    by blast+
  show ?thesis
    unfolding sendCurrentInitStep_plain[OF i p r] using f
    by (simp add: sendCommand_def Let_def resetLastAnswer_def strncpy_def DEFAULT_ANSWER_def cstr_def)
qed

theorem sendCurrentInitStep_issues_step_witness:
  "(12 :: nat) < STEP_SIZE \<and> nextStep (initSteps ! 12) = None
     \<and> serialOut (sendCurrentInitStep testCodec 0 ((FF_Sim7000 ())\<lparr>stepPtr := 12\<rparr>)) = cstr ''AT+CSCA?'' @ [13]
     \<and> expectedAnswer (sendCurrentInitStep testCodec 0 ((FF_Sim7000 ())\<lparr>stepPtr := 12\<rparr>)) = cstr ''+CSCA:''
     \<and> gsmTimeout (sendCurrentInitStep testCodec 0 ((FF_Sim7000 ())\<lparr>stepPtr := 12\<rparr>)) = 10000
     \<and> stepMaxRepeatcount (sendCurrentInitStep testCodec 0 ((FF_Sim7000 ())\<lparr>stepPtr := 12\<rparr>)) = 0"
proof -
  have h: "nextStep (initSteps ! 12) = None" "command (initSteps ! 12) = cstr ''AT+CSCA?''"
    "waitFor (initSteps ! 12) = cstr ''+CSCA:''" "timeout (initSteps ! 12) = 10000"
    "repeat (initSteps ! 12) = 0"
    by (simp_all add: initSteps_def initStep_def)
  have c: "cstr ''+CSCA:'' \<noteq> []" by (simp add: cstr_def)
  have i: "(12 :: nat) < STEP_SIZE" by simp
  have p: "stepPtr ((FF_Sim7000 ())\<lparr>stepPtr := 12\<rparr>) = of_nat 12" by simp
  have so: "serialOut ((FF_Sim7000 ())\<lparr>stepPtr := 12\<rparr>) = []" by (simp add: FF_Sim7000_def)
  show ?thesis
    using sendCurrentInitStep_issues_step[OF i p h(1), of testCodec 0, THEN conjunct2] h c so
    by simp
qed

section \<open>Reception\<close>

lemma deleteCommand:
  "strncpy (cstr ''AT+CMGD='' @ printInt 1 @ cstr '','' @ printInt 2) 49 = cstr ''AT+CMGD=1,2''"
  by (simp add: strncpy_def cstr_def printInt_def decimal.simps)

text \<open>
  C9. For every payload line handed to \<open>readSmsMessage\<close>, whatever \<open>decodePDU\<close>
  returns, exactly one command is issued behind the decoding: \<open>AT+CMGD=1,2\<close> goes to
  the serial port and \<open>commandCount\<close> grows by one; it is sent with no repeat and
  with \<open>setIdle\<close> as continuation. When the decoding succeeds, sender, time stamp and
  text are taken from the codec, \<open>smsForwardedCount\<close> grows by one and the registered
  \<open>readSmsCb\<close> is called with the three values; when it fails, no callback is called
  and the counter keeps its value.
\<close>

theorem readSmsMessage_deletes_once:
  assumes "decodePDU cd (smsPdu s) msg = (ok, p)"
  shows "serialOut (readSmsMessage cd now msg s) = serialOut s @ cstr ''AT+CMGD=1,2'' @ [13]
     \<and> commandCount (readSmsMessage cd now msg s) = commandCount s + 1
     \<and> lastCommand (readSmsMessage cd now msg s) = cstr ''AT+CMGD=1,2''
     \<and> nextStepCb (readSmsMessage cd now msg s) = Some SetIdle
     \<and> stepMaxRepeatcount (readSmsMessage cd now msg s) = 0
     \<and> (ok \<longrightarrow>
          lastReceivedNumber (readSmsMessage cd now msg s) = getSender cd p
        \<and> lastReceivedDate (readSmsMessage cd now msg s) = getTimeStamp cd p
        \<and> lastReceivedMessage (readSmsMessage cd now msg s) = getText cd p
        \<and> smsForwardedCount (readSmsMessage cd now msg s) = smsForwardedCount s + 1
        \<and> callbacks (readSmsMessage cd now msg s) =
            callbacks s @ (if readSmsCb s
                           then [ReadSms (getSender cd p) (getTimeStamp cd p) (getText cd p)]
                           else []))
     \<and> (\<not> ok \<longrightarrow>
          smsForwardedCount (readSmsMessage cd now msg s) = smsForwardedCount s
        \<and> callbacks (readSmsMessage cd now msg s) = callbacks s)"
proof -
  have ne: "cstr ''AT+CMGD=1,2'' \<noteq> []" "strncpy (cstr ''AT+CMGD=1,2'') 30 = cstr ''AT+CMGD=1,2''"
    by (simp_all add: cstr_def strncpy_def)
  show ?thesis
    using assms ne
    by (simp add: readSmsMessage_def deleteSMS_def deleteCommand sendCommand_def Let_def
        resetLastAnswer_def)
qed

theorem readSmsMessage_deletes_once_witness:
  "serialOut (readSmsMessage testCodec 3 (cstr ''07913396'') ((FF_Sim7000 ())\<lparr>readSmsCb := True\<rparr>))
     = cstr ''AT+CMGD=1,2'' @ [13]
   \<and> callbacks (readSmsMessage testCodec 3 (cstr ''07913396'') ((FF_Sim7000 ())\<lparr>readSmsCb := True\<rparr>))
     = [ReadSms (cstr ''+33123'') (cstr ''250402094927'') (cstr ''hello'')]
   \<and> smsForwardedCount (readSmsMessage testCodec 3 (cstr ''07913396'') ((FF_Sim7000 ())\<lparr>readSmsCb := True\<rparr>)) = 1
   \<and> serialOut (readSmsMessage testCodec 3 (cstr ''0000'') ((FF_Sim7000 ())\<lparr>readSmsCb := True\<rparr>))
     = cstr ''AT+CMGD=1,2'' @ [13]
   \<and> callbacks (readSmsMessage testCodec 3 (cstr ''0000'') ((FF_Sim7000 ())\<lparr>readSmsCb := True\<rparr>)) = []
   \<and> smsForwardedCount (readSmsMessage testCodec 3 (cstr ''0000'') ((FF_Sim7000 ())\<lparr>readSmsCb := True\<rparr>)) = 0"
proof -
  let ?s = "(FF_Sim7000 ())\<lparr>readSmsCb := True\<rparr>"
  have a: "decodePDU testCodec (smsPdu ?s) (cstr ''07913396'') = (True, ())"
    by (simp add: testCodec_def)
  have b: "decodePDU testCodec (smsPdu ?s) (cstr ''0000'') = (False, ())"
    by (simp add: testCodec_def cstr_def)
  have c: "serialOut ?s = []" "callbacks ?s = []" "smsForwardedCount ?s = 0" "readSmsCb ?s"
    "getSender testCodec () = cstr ''+33123''" "getTimeStamp testCodec () = cstr ''250402094927''"
    "getText testCodec () = cstr ''hello''"
    by (simp_all add: FF_Sim7000_def testCodec_def)
  show ?thesis
    using readSmsMessage_deletes_once[OF a, of 3] readSmsMessage_deletes_once[OF b, of 3] c
    by simp
qed

section \<open>The poll function\<close>

lemma startsWith_take: "startsWith s p \<Longrightarrow> take (length p) s = p"
  by (induction p arbitrary: s) (auto split: list.splits)

lemma strstr_Some:
  "strstr hay needle = Some k \<Longrightarrow> take (length needle) (drop k hay) = needle"
proof (induction hay arbitrary: k)
  case Nil
  then show ?case by (simp split: if_splits)
next
  case (Cons c cs)
  show ?case
  proof (cases "startsWith (c # cs) needle")
    case True
    with Cons.prems have "k = 0" by simp
    with True show ?thesis using startsWith_take by fastforce
  next
    case False
    with Cons.prems obtain k' where "strstr cs needle = Some k'" "k = Suc k'" by auto
    with Cons.IH show ?thesis by simp
  qed
qed

lemma doLoop_serial:
  "powerStepStartTime s = 0 \<Longrightarrow>
   doLoop cd now s = Some (case readModem cd now (serialIn s) s of
                             Return s1 \<Rightarrow> s1 | Continue s1 \<Rightarrow> checkTimeouts cd now s1)"
  by (simp add: doLoop_def)




text \<open>
  C7. When a line feed completes a line (the line buffer holds fewer than 498 bytes) that
  holds the registration prefix \<open>+CREG: \<close> at offset \<open>off\<close>, \<open>doLoop\<close> reads the status at \<open>off + 9\<close> when the last
  command holds \<open>+CREG?\<close> (the reply to the query: behind the prefix come a one-byte
  field and one separator more) and at \<open>off + 7\<close>, right behind the prefix, otherwise.
  \<open>smsReady\<close> becomes true when that byte is \<open>1\<close> or \<open>5\<close> and false otherwise;
  the line buffer is emptied and \<open>doLoop\<close> returns: no other member changes, no
  callback is called, no continuation runs, and the bytes behind the line feed stay in
  the port.
\<close>

theorem doLoop_registration_status:
  assumes "powerStepStartTime s = 0" and "serialIn s = 10 # rest"
    and "length (lastAnswer s) < MAX_ANSWER - 2"
    and "strstr (lastAnswer s) CREG_MSG = Some off"
  shows "take 7 (drop off (lastAnswer s)) = CREG_MSG
     \<and> doLoop cd now s =
         Some (s\<lparr>modemSpeaking := True, serialIn := rest,
                 smsReady :=
                   (byteAt (lastAnswer s)
                      (if strstr (lastCommand s) CREG_QUERY \<noteq> None then off + 9 else off + 7) = 0x31
                  \<or> byteAt (lastAnswer s)
                      (if strstr (lastCommand s) CREG_QUERY \<noteq> None then off + 9 else off + 7) = 0x35),
                 lastAnswer := []\<rparr>)"
proof -
  have l: "length CREG_MSG = 7" by (simp add: CREG_MSG_def cstr_def)
  have "take 7 (drop off (lastAnswer s)) = CREG_MSG"
    using strstr_Some[OF assms(4)] by (simp add: l)
  moreover have "doLoop cd now s =
         Some (s\<lparr>modemSpeaking := True, serialIn := rest,
                 smsReady :=
                   (byteAt (lastAnswer s)
                      (if strstr (lastCommand s) CREG_QUERY \<noteq> None then off + 9 else off + 7) = 0x31
                  \<or> byteAt (lastAnswer s)
                      (if strstr (lastCommand s) CREG_QUERY \<noteq> None then off + 9 else off + 7) = 0x35),
                 lastAnswer := []\<rparr>)"
    using assms by (simp add: doLoop_serial gotByte_def gotLine_def l Let_def resetLastAnswer_def)
  ultimately show ?thesis by simp
qed

theorem doLoop_registration_status_witness:
  "doLoop testCodec 5 cregQueried =
     Some (cregQueried\<lparr>modemSpeaking := True, serialIn := [], smsReady := True, lastAnswer := []\<rparr>)
   \<and> doLoop testCodec 5 cregPushed =
     Some (cregPushed\<lparr>modemSpeaking := True, serialIn := [], smsReady := True, lastAnswer := []\<rparr>)"
proof -
  have q: "powerStepStartTime cregQueried = 0" "serialIn cregQueried = 10 # []"
    "length (lastAnswer cregQueried) < MAX_ANSWER - 2"
    "lastAnswer cregQueried = cstr ''+CREG: 2,1''"
    "lastCommand cregQueried = cstr ''AT+CREG?''"
    by (simp_all add: cregQueried_def sendCommand_def Let_def resetLastAnswer_def FF_Sim7000_def
        cstr_def strncpy_def)
  have p: "powerStepStartTime cregPushed = 0" "serialIn cregPushed = 10 # []"
    "length (lastAnswer cregPushed) < MAX_ANSWER - 2"
    "lastAnswer cregPushed = cstr ''+CREG: 5''"
    "lastCommand cregPushed = cstr ''AT+CLTS=1''"
    by (simp_all add: cregPushed_def sendCommand_def Let_def resetLastAnswer_def FF_Sim7000_def
        cstr_def strncpy_def)
  have sq: "strstr (lastAnswer cregQueried) CREG_MSG = Some 0"
    unfolding q by code_simp
  have sp: "strstr (lastAnswer cregPushed) CREG_MSG = Some 0"
    unfolding p by code_simp
  have cq: "strstr (cstr ''AT+CREG?'') CREG_QUERY = Some 2" by code_simp
  have cp: "strstr (cstr ''AT+CLTS=1'') CREG_QUERY = None" by code_simp
  have bq: "byteAt (cstr ''+CREG: 2,1'') 9 = 0x31" by code_simp
  have bp: "byteAt (cstr ''+CREG: 5'') 7 = 0x35" by code_simp
  show ?thesis
    using doLoop_registration_status[OF q(1) q(2) q(3) sq, of testCodec 5, THEN conjunct2]
      doLoop_registration_status[OF p(1) p(2) p(3) sp, of testCodec 5, THEN conjunct2]
    by (simp add: q p cq cp bq bp)
qed

text \<open>
  C6. For every line completed by a line feed (the line buffer holds fewer than 498 bytes)
  that reaches the step of the pending command, that is, does not hold the registration
  prefix, while a command is pending (\<open>inReceive\<close>): the line matches when it equals
  the expected pattern in case that is the default \<open>OK\<close>, and when the expected
  pattern occurs in it otherwise. On a match \<open>gsmStatus\<close> becomes \<open>SIM7000_OK\<close>
  and the continuation \<open>nextStepCb\<close> is called, or \<open>setIdle\<close> when there is
  none. On a line that does not match, when errors are not ignored and the line holds
  \<open>+CMS ERROR\<close> or \<open>+CME ERROR\<close>, \<open>gsmStatus\<close> becomes
  \<open>SIM7000_CM_ERROR\<close>, the restart flag is set with that reason and the mode becomes
  idle. Every other line leaves the command unresolved and goes on to the next steps: an
  empty line is skipped, a line behind an SMS indicator is the payload for
  \<open>readSmsMessage\<close>, a line with the SMS indicator arms the payload, and any other line
  goes to the line callback.
\<close>

theorem doLoop_pending_answer:
  assumes "powerStepStartTime s = 0" and "serialIn s = 10 # rest"
    and "length (lastAnswer s) < MAX_ANSWER - 2"
    and "strstr (lastAnswer s) CREG_MSG = None"
    and "inReceive s"
  shows "(answerMatches (expectedAnswer s) (lastAnswer s) \<longrightarrow>
            doLoop cd now s =
              Some (case nextStepCb s of
                      Some st \<Rightarrow> callStep cd now st
                                   (s\<lparr>modemSpeaking := True, serialIn := rest, gsmStatus := SIM7000_OK\<rparr>)
                    | None \<Rightarrow> setIdle (s\<lparr>modemSpeaking := True, serialIn := rest, gsmStatus := SIM7000_OK\<rparr>)))
     \<and> (\<not> answerMatches (expectedAnswer s) (lastAnswer s) \<and> \<not> ignoreErrors s
          \<and> deviceError (lastAnswer s) \<longrightarrow>
            doLoop cd now s =
              Some (s\<lparr>modemSpeaking := True, serialIn := rest, gsmStatus := SIM7000_CM_ERROR,
                      restartNeeded := True, restartReason := SIM7000_CM_ERROR,
                      gsmIdle := SIM7000_IDLE, inReceive := False, lastAnswer := []\<rparr>))
     \<and> (\<not> answerMatches (expectedAnswer s) (lastAnswer s)
          \<and> (ignoreErrors s \<or> \<not> deviceError (lastAnswer s)) \<longrightarrow>
            doLoop cd now s =
              (if lastAnswer s = [] then
                 doLoop cd now (s\<lparr>modemSpeaking := True, serialIn := rest\<rparr>)
               else if nextLineIsSmsMessage s then
                 Some ((resetLastAnswer
                          (readSmsMessage cd now (lastAnswer s)
                             (s\<lparr>modemSpeaking := True, serialIn := rest\<rparr>)))
                       \<lparr>nextLineIsSmsMessage := False\<rparr>)
               else if strstr (lastAnswer s) SMS_INDICATOR \<noteq> None then
                 Some (s\<lparr>modemSpeaking := True, serialIn := rest,
                         lastCommand := strncpy (lastAnswer s) 30, index := 0,
                         nextLineIsSmsMessage := True, lastAnswer := [], inReceive := True,
                         gsmTimeout := 2000, startTime := now\<rparr>)
               else
                 Some (s\<lparr>modemSpeaking := True, serialIn := rest,
                         callbacks := callbacks s @ (if recvLineCb s then [RecvLine (lastAnswer s)] else []),
                         lastAnswer := []\<rparr>)))"
proof -
  let ?m = "answerMatches (expectedAnswer s) (lastAnswer s)"
  let ?s0 = "s\<lparr>modemSpeaking := True, serialIn := rest\<rparr>"
  have g: "doLoop cd now s =
      Some (case gotLine cd now ?s0 of
              Return s1 \<Rightarrow> s1
            | Continue s1 \<Rightarrow>
               (case readModem cd now rest s1 of
                  Return s2 \<Rightarrow> s2 | Continue s2 \<Rightarrow> checkTimeouts cd now s2))"
    using assms by (simp add: doLoop_serial gotByte_def split: flow.splits)
  have a: "?m \<longrightarrow> gotLine cd now ?s0 = Return (nextStepOrIdle cd now (?s0\<lparr>gsmStatus := SIM7000_OK\<rparr>))"
    using assms(4,5) by (auto simp add: gotLine_def Let_def answerMatches_def)
  have b: "\<not> ?m \<and> \<not> ignoreErrors s \<and> deviceError (lastAnswer s) \<longrightarrow>
      gotLine cd now ?s0 = Return (setIdle (?s0\<lparr>gsmStatus := SIM7000_CM_ERROR, restartNeeded := True,
                                      restartReason := SIM7000_CM_ERROR\<rparr>))"
    using assms(4,5) by (auto simp add: gotLine_def Let_def deviceError_def answerMatches_def)
  have c: "\<not> ?m \<and> (ignoreErrors s \<or> \<not> deviceError (lastAnswer s)) \<longrightarrow>
      gotLine cd now ?s0 =
        (if lastAnswer s = [] then Continue ?s0
         else if nextLineIsSmsMessage s then
           Return ((resetLastAnswer (readSmsMessage cd now (lastAnswer s) ?s0))
                     \<lparr>nextLineIsSmsMessage := False\<rparr>)
         else if strstr (lastAnswer s) SMS_INDICATOR \<noteq> None then
           Return ((resetLastAnswer
                      (readSmsHeader (lastAnswer s) (?s0\<lparr>lastCommand := strncpy (lastAnswer s) 30\<rparr>)))
                     \<lparr>inReceive := True, gsmTimeout := 2000, startTime := now\<rparr>)
         else
           Return (resetLastAnswer
                     (if recvLineCb s
                      then ?s0\<lparr>callbacks := callbacks s @ [RecvLine (lastAnswer s)]\<rparr>
                      else ?s0)))"
    using assms(4,5) by (auto simp add: gotLine_def Let_def deviceError_def answerMatches_def)
  have p0: "powerStepStartTime ?s0 = 0" using assms(1) by simp
  have e: "doLoop cd now ?s0 =
      Some (case readModem cd now rest ?s0 of
              Return s2 \<Rightarrow> s2 | Continue s2 \<Rightarrow> checkTimeouts cd now s2)"
    by (simp add: doLoop_serial[OF p0])
  have 1: "?m \<longrightarrow>
            doLoop cd now s =
              Some (case nextStepCb s of
                      Some st \<Rightarrow> callStep cd now st
                                   (s\<lparr>modemSpeaking := True, serialIn := rest, gsmStatus := SIM7000_OK\<rparr>)
                    | None \<Rightarrow> setIdle (s\<lparr>modemSpeaking := True, serialIn := rest, gsmStatus := SIM7000_OK\<rparr>))"
    using a by (simp add: g nextStepOrIdle_def split: option.splits)
  have 2: "\<not> ?m \<and> \<not> ignoreErrors s \<and> deviceError (lastAnswer s) \<longrightarrow>
            doLoop cd now s =
              Some (s\<lparr>modemSpeaking := True, serialIn := rest, gsmStatus := SIM7000_CM_ERROR,
                      restartNeeded := True, restartReason := SIM7000_CM_ERROR,
                      gsmIdle := SIM7000_IDLE, inReceive := False, lastAnswer := []\<rparr>)"
    using b by (simp add: g setIdle_def resetLastAnswer_def)
  have 3: "\<not> ?m \<and> (ignoreErrors s \<or> \<not> deviceError (lastAnswer s)) \<longrightarrow>
            doLoop cd now s =
              (if lastAnswer s = [] then
                 doLoop cd now (s\<lparr>modemSpeaking := True, serialIn := rest\<rparr>)
               else if nextLineIsSmsMessage s then
                 Some ((resetLastAnswer
                          (readSmsMessage cd now (lastAnswer s)
                             (s\<lparr>modemSpeaking := True, serialIn := rest\<rparr>)))
                       \<lparr>nextLineIsSmsMessage := False\<rparr>)
               else if strstr (lastAnswer s) SMS_INDICATOR \<noteq> None then
                 Some (s\<lparr>modemSpeaking := True, serialIn := rest,
                         lastCommand := strncpy (lastAnswer s) 30, index := 0,
                         nextLineIsSmsMessage := True, lastAnswer := [], inReceive := True,
                         gsmTimeout := 2000, startTime := now\<rparr>)
               else
                 Some (s\<lparr>modemSpeaking := True, serialIn := rest,
                         callbacks := callbacks s @ (if recvLineCb s then [RecvLine (lastAnswer s)] else []),
                         lastAnswer := []\<rparr>))"
  proof (intro impI)
    assume h: "\<not> ?m \<and> (ignoreErrors s \<or> \<not> deviceError (lastAnswer s))"
    note gl = c[rule_format, OF h]
    show "doLoop cd now s =
              (if lastAnswer s = [] then
                 doLoop cd now (s\<lparr>modemSpeaking := True, serialIn := rest\<rparr>)
               else if nextLineIsSmsMessage s then
                 Some ((resetLastAnswer
                          (readSmsMessage cd now (lastAnswer s)
                             (s\<lparr>modemSpeaking := True, serialIn := rest\<rparr>)))
                       \<lparr>nextLineIsSmsMessage := False\<rparr>)
               else if strstr (lastAnswer s) SMS_INDICATOR \<noteq> None then
                 Some (s\<lparr>modemSpeaking := True, serialIn := rest,
                         lastCommand := strncpy (lastAnswer s) 30, index := 0,
                         nextLineIsSmsMessage := True, lastAnswer := [], inReceive := True,
                         gsmTimeout := 2000, startTime := now\<rparr>)
               else
                 Some (s\<lparr>modemSpeaking := True, serialIn := rest,
                         callbacks := callbacks s @ (if recvLineCb s then [RecvLine (lastAnswer s)] else []),
                         lastAnswer := []\<rparr>))"
      unfolding g gl e
      by (auto simp add: readSmsHeader_def resetLastAnswer_def Let_def split: option.splits)
  qed
  from 1 2 3 show ?thesis by blast
qed

theorem doLoop_pending_answer_witness:
  "doLoop testCodec 5 okAfterDelete =
     Some (setIdle (okAfterDelete\<lparr>modemSpeaking := True, serialIn := [], gsmStatus := SIM7000_OK\<rparr>))
   \<and> doLoop testCodec 5 errorAfterDelete =
     Some (errorAfterDelete\<lparr>modemSpeaking := True, serialIn := [], gsmStatus := SIM7000_CM_ERROR,
             restartNeeded := True, restartReason := SIM7000_CM_ERROR,
             gsmIdle := SIM7000_IDLE, inReceive := False, lastAnswer := []\<rparr>)
   \<and> doLoop testCodec 5 nearOkAfterDelete =
     Some (nearOkAfterDelete\<lparr>modemSpeaking := True, serialIn := [], lastAnswer := []\<rparr>)
   \<and> doLoop testCodec 5 okSpaceAfterDelete =
     Some (okSpaceAfterDelete\<lparr>modemSpeaking := True, serialIn := [], lastAnswer := []\<rparr>)
   \<and> inReceive nearOkAfterDelete \<and> gsmStatus nearOkAfterDelete = SIM7000_RUNNING
   \<and> inReceive okSpaceAfterDelete \<and> gsmStatus okSpaceAfterDelete = SIM7000_RUNNING"
proof -
  have a: "powerStepStartTime okAfterDelete = 0" "serialIn okAfterDelete = 10 # []"
    "length (lastAnswer okAfterDelete) < MAX_ANSWER - 2"
    "strstr (lastAnswer okAfterDelete) CREG_MSG = None" "inReceive okAfterDelete"
    "answerMatches (expectedAnswer okAfterDelete) (lastAnswer okAfterDelete)"
    "nextStepCb okAfterDelete = Some SetIdle"
    by code_simp+
  have b: "powerStepStartTime errorAfterDelete = 0" "serialIn errorAfterDelete = 10 # []"
    "length (lastAnswer errorAfterDelete) < MAX_ANSWER - 2"
    "strstr (lastAnswer errorAfterDelete) CREG_MSG = None" "inReceive errorAfterDelete"
    "\<not> answerMatches (expectedAnswer errorAfterDelete) (lastAnswer errorAfterDelete)"
    "\<not> ignoreErrors errorAfterDelete" "deviceError (lastAnswer errorAfterDelete)"
    by code_simp+
  have c: "powerStepStartTime nearOkAfterDelete = 0" "serialIn nearOkAfterDelete = 10 # []"
    "length (lastAnswer nearOkAfterDelete) < MAX_ANSWER - 2"
    "strstr (lastAnswer nearOkAfterDelete) CREG_MSG = None" "inReceive nearOkAfterDelete"
    "\<not> answerMatches (expectedAnswer nearOkAfterDelete) (lastAnswer nearOkAfterDelete)"
    "\<not> deviceError (lastAnswer nearOkAfterDelete)" "lastAnswer nearOkAfterDelete \<noteq> []"
    "\<not> nextLineIsSmsMessage nearOkAfterDelete"
    "strstr (lastAnswer nearOkAfterDelete) SMS_INDICATOR = None"
    "\<not> recvLineCb nearOkAfterDelete" "gsmStatus nearOkAfterDelete = SIM7000_RUNNING"
    by code_simp+
  have d: "powerStepStartTime okSpaceAfterDelete = 0" "serialIn okSpaceAfterDelete = 10 # []"
    "length (lastAnswer okSpaceAfterDelete) < MAX_ANSWER - 2"
    "strstr (lastAnswer okSpaceAfterDelete) CREG_MSG = None" "inReceive okSpaceAfterDelete"
    "\<not> answerMatches (expectedAnswer okSpaceAfterDelete) (lastAnswer okSpaceAfterDelete)"
    "\<not> deviceError (lastAnswer okSpaceAfterDelete)" "lastAnswer okSpaceAfterDelete \<noteq> []"
    "\<not> nextLineIsSmsMessage okSpaceAfterDelete"
    "strstr (lastAnswer okSpaceAfterDelete) SMS_INDICATOR = None"
    "\<not> recvLineCb okSpaceAfterDelete" "gsmStatus okSpaceAfterDelete = SIM7000_RUNNING"
    by code_simp+
  have 1: "doLoop testCodec 5 okAfterDelete =
     Some (setIdle (okAfterDelete\<lparr>modemSpeaking := True, serialIn := [], gsmStatus := SIM7000_OK\<rparr>))"
    using doLoop_pending_answer[OF a(1-5), of testCodec 5, THEN conjunct1] a(6,7)
    by (simp add: callStep.simps)
  have 2: "doLoop testCodec 5 errorAfterDelete =
     Some (errorAfterDelete\<lparr>modemSpeaking := True, serialIn := [], gsmStatus := SIM7000_CM_ERROR,
             restartNeeded := True, restartReason := SIM7000_CM_ERROR,
             gsmIdle := SIM7000_IDLE, inReceive := False, lastAnswer := []\<rparr>)"
    using doLoop_pending_answer[OF b(1-5), of testCodec 5, THEN conjunct2, THEN conjunct1] b(6-8)
    by simp
  have 3: "doLoop testCodec 5 nearOkAfterDelete =
     Some (nearOkAfterDelete\<lparr>modemSpeaking := True, serialIn := [], lastAnswer := []\<rparr>)"
    using doLoop_pending_answer[OF c(1-5), of testCodec 5, THEN conjunct2, THEN conjunct2] c(6-11)
    by simp
  have 4: "doLoop testCodec 5 okSpaceAfterDelete =
     Some (okSpaceAfterDelete\<lparr>modemSpeaking := True, serialIn := [], lastAnswer := []\<rparr>)"
    using doLoop_pending_answer[OF d(1-5), of testCodec 5, THEN conjunct2, THEN conjunct2] d(6-11)
    by simp
  from 1 2 3 4 c(5,12) d(5,12) show ?thesis by simp
qed

text \<open>
  A line that holds the registration prefix is taken by the registration step, which
  comes first: with \<open>AT+CSCA?\<close> pending and \<open>+CSCA:\<close> expected, the line
  \<open>+CREG: 1,+CSCA: 33\<close> leaves the command pending with \<open>gsmStatus\<close> at
  \<open>SIM7000_RUNNING\<close>, the init sequence does not advance and nothing is sent.
\<close>

lemma doLoop_registration_line_first:
  "inReceive cscaPending \<and> expectedAnswer cscaPending = cstr ''+CSCA:''
     \<and> serialIn cscaPending = cstr ''+CREG: 1,+CSCA: 33'' @ [10]
     \<and> answerMatches (expectedAnswer cscaPending) (cstr ''+CREG: 1,+CSCA: 33'')
     \<and> gsmStatus (the (doLoop testCodec 5 cscaPending)) = SIM7000_RUNNING
     \<and> inReceive (the (doLoop testCodec 5 cscaPending))
     \<and> stepPtr (the (doLoop testCodec 5 cscaPending)) = 12
     \<and> serialOut (the (doLoop testCodec 5 cscaPending)) = serialOut cscaPending
     \<and> lastAnswer (the (doLoop testCodec 5 cscaPending)) = []"
  by code_simp

text \<open>After an overflow with nothing more in the port, a pending command without
  retries left is ended at its deadline by the time-out path, which asks for the
  restart.\<close>

lemma doLoop_too_long_then_timeout:
  assumes "powerStepStartTime s = 0" and "serialIn s = [c]" and "c \<noteq> 0" and "c \<noteq> 13"
    and "length (lastAnswer s) \<ge> MAX_ANSWER - 2"
    and "inReceive s" and "\<not> ignoreErrors s" and "\<not> stepRepeatCount s < stepMaxRepeatcount s"
    and "later - startTime s \<ge> gsmTimeout s"
  shows "doLoop cd later (the (doLoop cd now s)) =
           Some (s\<lparr>modemSpeaking := True, serialIn := [], gsmStatus := SIM7000_TIMEOUT,
                   restartNeeded := True, restartReason := SIM7000_TIMEOUT,
                   gsmIdle := SIM7000_IDLE, inReceive := False, lastAnswer := []\<rparr>)"
proof -
  have 1: "doLoop cd now s =
      Some (s\<lparr>modemSpeaking := True, serialIn := [], gsmStatus := SIM7000_TOO_LONG,
              lastAnswer := []\<rparr>)"
    using assms(1-5) by (simp add: doLoop_serial gotByte_def resetLastAnswer_def)
  show ?thesis
    unfolding 1 using assms(1,6-9)
    by (simp add: doLoop_serial checkTimeouts_def setIdle_def resetLastAnswer_def)
qed







end
